theory Spec2Isabelle
  imports Complex_Main
begin

section \<open>Street cross-section validation (src/index.js, first module)\<close>

text \<open>
  The development embeds the rule merger \<open>buildRules\<close> and the validator
  \<open>validateDesignWithStandards\<close> of the first module of \<^verbatim>\<open>src/index.js\<close>
  (lines 1 to 289), the one whose violations carry a field tag. The file holds a second,
  older validator (lines 329 to 589), and \<^verbatim>\<open>src/unnamed/part_000\<close> a third; they differ
  in the mandatory-field check, in the fallbacks and in the messages, and are not
  modelled here.

  JavaScript numbers are modelled as exact reals: the rounding and the overflow of
  IEEE doubles are not modelled. The only operation of the validator that can leave the
  finite numbers is the division by the lane count; its result has the type \<open>jsnum\<close>,
  which keeps the infinities and NaN.
\<close>

subsection \<open>Values and coercions\<close>

datatype jsnum = Fin real | PosInf | NegInf | NaN

text \<open>
  A field of the request body: absent (\<open>undefined\<close>) or a primitive JSON value.
  Arrays and objects as field values are outside the model.
\<close>

datatype jsval = JUndefined | JNull | JBool bool | JNum real | JStr string

text \<open>
  \<open>Number(value)\<close>. The conversion of a string (the StringToNumber grammar of the
  language) is a builtin and is taken as the parameter \<open>S\<close>.
\<close>

fun Number :: "(string \<Rightarrow> jsnum) \<Rightarrow> jsval \<Rightarrow> jsnum" where
  "Number S JUndefined = NaN"
| "Number S JNull = Fin 0"
| "Number S (JBool b) = Fin (if b then 1 else 0)"
| "Number S (JNum n) = Fin n"
| "Number S (JStr s) = S s"

text \<open>\<open>toNumber(value, fallback = 0)\<close>: every call in the source uses the default fallback.\<close>

definition toNumber :: "(string \<Rightarrow> jsnum) \<Rightarrow> jsval \<Rightarrow> real \<Rightarrow> real" where
  "toNumber S v fallback = (case Number S v of Fin n \<Rightarrow> n | _ \<Rightarrow> fallback)"

text \<open>Strings are ASCII: \<open>trim\<close> and \<open>toLowerCase\<close> are modelled on ASCII characters.\<close>

definition is_space :: "char \<Rightarrow> bool" where
  "is_space c = (c \<in> set [CHR 0x20, CHR 0x09, CHR 0x0A, CHR 0x0B, CHR 0x0C, CHR 0x0D])"

definition trim :: "string \<Rightarrow> string" where
  "trim s = rev (dropWhile is_space (rev (dropWhile is_space s)))"

definition lower_char :: "char \<Rightarrow> char" where
  "lower_char c =
     (case map_of (zip ''ABCDEFGHIJKLMNOPQRSTUVWXYZ'' ''abcdefghijklmnopqrstuvwxyz'') c of
        Some l \<Rightarrow> l | None \<Rightarrow> c)"

definition toLowerCase :: "string \<Rightarrow> string" where
  "toLowerCase s = map lower_char s"

fun toBool :: "jsval \<Rightarrow> bool" where
  "toBool (JBool b) = b"
| "toBool (JStr s) =
     (let v = toLowerCase (trim s)
      in v = ''ja'' \<or> v = ''yes'' \<or> v = ''true'' \<or> v = ''on'' \<or> v = ''1'')"
| "toBool _ = False"

text \<open>
  \<open>(x ?? "").toLowerCase()\<close>: \<open>undefined\<close> and \<open>null\<close> give the empty string, a string is
  lower-cased, and any other value has no method \<open>toLowerCase\<close>, so the call throws.
\<close>

datatype error = TypeError

fun lowerOrEmpty :: "jsval \<Rightarrow> error + string" where
  "lowerOrEmpty JUndefined = Inr ''''"
| "lowerOrEmpty JNull = Inr ''''"
| "lowerOrEmpty (JStr s) = Inr (toLowerCase s)"
| "lowerOrEmpty _ = Inl TypeError"

subsection \<open>Rule catalog\<close>

datatype rkey =
    sidewalk_min_m | sidewalk_target_m | lane_min_m | lane_regular_m | cycle_min_m
  | parking_parallel_min_m | parking_schraeg_min_m | parking_quer_min_m
  | cycle_schutz_min_m | cycle_radfahr_min_m | cycle_baulich_min_m

type_synonym ruleTable = "rkey \<rightharpoonup> real"

definition BASE_RULES :: ruleTable where
  "BASE_RULES =
     [sidewalk_min_m \<mapsto> 1.5, sidewalk_target_m \<mapsto> 1.8, lane_min_m \<mapsto> 2.75,
      lane_regular_m \<mapsto> 3.25, cycle_min_m \<mapsto> 1.5, parking_parallel_min_m \<mapsto> 2.0,
      parking_schraeg_min_m \<mapsto> 2.5, parking_quer_min_m \<mapsto> 5.0]"

definition RAST_RULES :: ruleTable where
  "RAST_RULES =
     [sidewalk_min_m \<mapsto> 1.8, lane_min_m \<mapsto> 2.75, lane_regular_m \<mapsto> 3.25,
      parking_parallel_min_m \<mapsto> 2.0, parking_schraeg_min_m \<mapsto> 2.5,
      parking_quer_min_m \<mapsto> 5.0]"

definition ERA_RULES :: ruleTable where
  "ERA_RULES =
     [cycle_schutz_min_m \<mapsto> 1.5, cycle_radfahr_min_m \<mapsto> 1.85, cycle_baulich_min_m \<mapsto> 2.0]"

definition EFA_RULES :: ruleTable where
  "EFA_RULES = [sidewalk_min_m \<mapsto> 1.8, sidewalk_target_m \<mapsto> 2.5]"

definition STVO_RULES :: ruleTable where
  "STVO_RULES = [lane_min_m \<mapsto> 2.75, lane_regular_m \<mapsto> 3.25]"

text \<open>
  A property read \<open>t.k\<close>. Every read of the source is of a key that the table holds
  (lemmas \<open>catalog_reads\<close> and \<open>buildRules_dom\<close> below).
\<close>

definition get :: "ruleTable \<Rightarrow> rkey \<Rightarrow> real" where
  "get t k = the (t k)"

subsection \<open>Rule merger\<close>

record standards =
  applyRast :: bool
  applyEra :: bool
  applyEfa :: bool
  applyStvo :: bool

text \<open>
  \<open>buildRules\<close> as a function of the selection: the object spread \<open>{...a, ...b}\<close> is
  \<open>a ++ b\<close>, an assignment \<open>rules.k = v\<close> is a map update.
\<close>

definition buildRules :: "standards \<Rightarrow> ruleTable" where
  "buildRules st =
     (let rules = BASE_RULES;
          rules = (if applyRast st then rules ++ RAST_RULES else rules);
          rules = (if applyEfa st then rules ++ EFA_RULES else rules);
          rules = (if applyStvo st then
                     (let rules = rules(lane_min_m \<mapsto>
                                    max (get rules lane_min_m) (get STVO_RULES lane_min_m))
                      in rules(lane_regular_m \<mapsto>
                           max (get rules lane_regular_m) (get STVO_RULES lane_regular_m)))
                   else rules);
          rules = (if applyEra st then
                     (let rules = rules(cycle_schutz_min_m \<mapsto> get ERA_RULES cycle_schutz_min_m);
                          rules = rules(cycle_radfahr_min_m \<mapsto> get ERA_RULES cycle_radfahr_min_m)
                      in rules(cycle_baulich_min_m \<mapsto> get ERA_RULES cycle_baulich_min_m))
                   else
                     (let rules = rules(cycle_schutz_min_m \<mapsto> 1.5);
                          rules = rules(cycle_radfahr_min_m \<mapsto> 1.85)
                      in rules(cycle_baulich_min_m \<mapsto> 2.0)))
      in rules)"

subsection \<open>Rule merger on the object store\<close>

text \<open>
  The catalog tables are module-level objects, and \<open>buildRules\<close> assigns to properties of
  \<open>rules\<close>. Whether a call can change what a later call reads depends on which object
  \<open>rules\<close> refers to, so the merger is modelled a second time on an explicit store: a list
  of objects, an address being an index. The five catalog objects are allocated first, in
  the order of their declarations; an object spread allocates a new object.
\<close>

type_synonym addr = nat
type_synonym store = "ruleTable list"

definition BASE_RULES_a :: addr where "BASE_RULES_a = 0"
definition RAST_RULES_a :: addr where "RAST_RULES_a = 1"
definition ERA_RULES_a :: addr where "ERA_RULES_a = 2"
definition EFA_RULES_a :: addr where "EFA_RULES_a = 3"
definition STVO_RULES_a :: addr where "STVO_RULES_a = 4"

definition module_store :: store where
  "module_store = [BASE_RULES, RAST_RULES, ERA_RULES, EFA_RULES, STVO_RULES]"

definition alloc :: "store \<Rightarrow> ruleTable \<Rightarrow> addr \<times> store" where
  "alloc h t = (length h, h @ [t])"

definition put :: "store \<Rightarrow> addr \<Rightarrow> rkey \<Rightarrow> real \<Rightarrow> store" where
  "put h a k v = h[a := (h ! a)(k \<mapsto> v)]"

definition buildRules_st :: "standards \<Rightarrow> store \<Rightarrow> addr \<times> store" where
  "buildRules_st st h0 =
     (let (rules, h) = alloc h0 (h0 ! BASE_RULES_a);
          (rules, h) = (if applyRast st then alloc h ((h ! rules) ++ (h ! RAST_RULES_a))
                        else (rules, h));
          (rules, h) = (if applyEfa st then alloc h ((h ! rules) ++ (h ! EFA_RULES_a))
                        else (rules, h));
          h = (if applyStvo st then
                 (let h = put h rules lane_min_m
                            (max (get (h ! rules) lane_min_m) (get (h ! STVO_RULES_a) lane_min_m))
                  in put h rules lane_regular_m
                       (max (get (h ! rules) lane_regular_m)
                            (get (h ! STVO_RULES_a) lane_regular_m)))
               else h);
          h = (if applyEra st then
                 (let h = put h rules cycle_schutz_min_m
                            (get (h ! ERA_RULES_a) cycle_schutz_min_m);
                      h = put h rules cycle_radfahr_min_m
                            (get (h ! ERA_RULES_a) cycle_radfahr_min_m)
                  in put h rules cycle_baulich_min_m
                       (get (h ! ERA_RULES_a) cycle_baulich_min_m))
               else
                 (let h = put h rules cycle_schutz_min_m 1.5;
                      h = put h rules cycle_radfahr_min_m 1.85
                  in put h rules cycle_baulich_min_m 2.0))
      in (rules, h))"

text \<open>The catalog objects hold the values of their declarations.\<close>

definition catalog_intact :: "store \<Rightarrow> bool" where
  "catalog_intact h =
     (5 \<le> length h \<and> h ! BASE_RULES_a = BASE_RULES \<and> h ! RAST_RULES_a = RAST_RULES \<and>
      h ! ERA_RULES_a = ERA_RULES \<and> h ! EFA_RULES_a = EFA_RULES \<and>
      h ! STVO_RULES_a = STVO_RULES)"

text \<open>The table that a call returns: the object at the returned address.\<close>

definition table_of :: "addr \<times> store \<Rightarrow> ruleTable" where
  "table_of r = snd r ! fst r"

text \<open>
  The two halves of \<open>buildRules_st\<close>, named for the proofs: the object spreads, which
  allocate, and the property assignments, which mutate the object \<open>rules\<close> refers to.
  \<open>assign_table\<close> is the effect of the assignments on one table.
\<close>

definition spread_phase :: "standards \<Rightarrow> store \<Rightarrow> addr \<times> store" where
  "spread_phase st h0 =
     (let (rules, h) = alloc h0 (h0 ! BASE_RULES_a);
          (rules, h) = (if applyRast st then alloc h ((h ! rules) ++ (h ! RAST_RULES_a))
                        else (rules, h));
          (rules, h) = (if applyEfa st then alloc h ((h ! rules) ++ (h ! EFA_RULES_a))
                        else (rules, h))
      in (rules, h))"

definition assign_phase :: "standards \<Rightarrow> addr \<Rightarrow> store \<Rightarrow> store" where
  "assign_phase st rules h0 =
     (let h = h0;
          h = (if applyStvo st then
                 (let h = put h rules lane_min_m
                            (max (get (h ! rules) lane_min_m) (get (h ! STVO_RULES_a) lane_min_m))
                  in put h rules lane_regular_m
                       (max (get (h ! rules) lane_regular_m)
                            (get (h ! STVO_RULES_a) lane_regular_m)))
               else h);
          h = (if applyEra st then
                 (let h = put h rules cycle_schutz_min_m
                            (get (h ! ERA_RULES_a) cycle_schutz_min_m);
                      h = put h rules cycle_radfahr_min_m
                            (get (h ! ERA_RULES_a) cycle_radfahr_min_m)
                  in put h rules cycle_baulich_min_m
                       (get (h ! ERA_RULES_a) cycle_baulich_min_m))
               else
                 (let h = put h rules cycle_schutz_min_m 1.5;
                      h = put h rules cycle_radfahr_min_m 1.85
                  in put h rules cycle_baulich_min_m 2.0))
      in h)"

definition assign_table :: "standards \<Rightarrow> ruleTable \<Rightarrow> ruleTable" where
  "assign_table st rules0 =
     (let rules = rules0;
          rules = (if applyStvo st then
                     (let rules = rules(lane_min_m \<mapsto>
                                    max (get rules lane_min_m) (get STVO_RULES lane_min_m))
                      in rules(lane_regular_m \<mapsto>
                           max (get rules lane_regular_m) (get STVO_RULES lane_regular_m)))
                   else rules);
          rules = (if applyEra st then
                     (let rules = rules(cycle_schutz_min_m \<mapsto> get ERA_RULES cycle_schutz_min_m);
                          rules = rules(cycle_radfahr_min_m \<mapsto> get ERA_RULES cycle_radfahr_min_m)
                      in rules(cycle_baulich_min_m \<mapsto> get ERA_RULES cycle_baulich_min_m))
                   else
                     (let rules = rules(cycle_schutz_min_m \<mapsto> 1.5);
                          rules = rules(cycle_radfahr_min_m \<mapsto> 1.85)
                      in rules(cycle_baulich_min_m \<mapsto> 2.0)))
      in rules)"

subsection \<open>Numbers in messages\<close>

text \<open>
  A message is a template literal. It is kept as the list of its parts, so that the way
  each number is converted stays visible: \<open>Text s\<close> is literal text (non-ASCII letters as
  their UTF-8 bytes), \<open>Num x\<close> is \<open>${x}\<close> (the default conversion of a number to a
  string) and \<open>Fixed x\<close> is \<open>${x.toFixed(2)}\<close>.
\<close>

datatype piece = Text string | Num real | Fixed jsnum











subsection \<open>Form mapping\<close>

text \<open>The fields of the request body that the validator reads.\<close>

record data =
  gesamtbreite :: jsval
  gehwegLinks :: jsval
  gehwegRechts :: jsval
  fahrstreifen :: jsval
  busverkehr :: jsval
  radverkehrGewuenscht :: jsval
  radverkehrArt :: jsval
  radverkehrFuehrung :: jsval
  parkstaendeGewuenscht :: jsval
  parkart :: jsval

text \<open>The local constants that the form mapping (lines 110 to 122) binds.\<close>

record geometry =
  totalWidthM :: real
  sidewalkLeftM :: real
  sidewalkRightM :: real
  lanesCount :: real
  busTraffic :: bool
  cycleNeeded :: bool
  cycleType :: string
  cycleSides :: string
  parkingNeeded :: bool
  parkingType :: string

definition formMapping :: "(string \<Rightarrow> jsnum) \<Rightarrow> data \<Rightarrow> error + geometry" where
  "formMapping S d =
     (case lowerOrEmpty (radverkehrArt d) of
        Inl e \<Rightarrow> Inl e
      | Inr ct \<Rightarrow>
     (case lowerOrEmpty (radverkehrFuehrung d) of
        Inl e \<Rightarrow> Inl e
      | Inr cs \<Rightarrow>
     (case lowerOrEmpty (parkart d) of
        Inl e \<Rightarrow> Inl e
      | Inr pt \<Rightarrow>
          Inr \<lparr>totalWidthM = toNumber S (gesamtbreite d) 0,
               sidewalkLeftM = toNumber S (gehwegLinks d) 0,
               sidewalkRightM = toNumber S (gehwegRechts d) 0,
               lanesCount = toNumber S (fahrstreifen d) 0,
               busTraffic = toBool (busverkehr d),
               cycleNeeded = toBool (radverkehrGewuenscht d),
               cycleType = ct,
               cycleSides = cs,
               parkingNeeded = toBool (parkstaendeGewuenscht d),
               parkingType = pt\<rparr>)))"

subsection \<open>Validator\<close>

record violation =
  field :: string
  message :: "piece list"

definition addError :: "violation list \<Rightarrow> string \<Rightarrow> piece list \<Rightarrow> violation list" where
  "addError errors f m = errors @ [\<lparr>field = f, message = m\<rparr>]"

text \<open>
  The object \<open>summary\<close> of a full result, its nested fields flattened:
  \<open>sum_cycleTotalM\<close> is \<open>summary.cycle.cycleTotalM\<close>, and so on.
\<close>

record summary =
  sum_sidewalkLeftM :: real
  sum_sidewalkRightM :: real
  sum_cycleNeeded :: bool
  sum_cycleType :: string
  sum_cycleSides :: string
  sum_cycleTotalM :: real
  sum_parkingNeeded :: bool
  sum_parkingType :: string
  sum_parkingM :: real
  sum_lanesCount :: real
  sum_approxLaneWidth :: jsnum
  sum_requiredMin :: real
  sum_totalWidthM :: real

text \<open>
  The returned object. The early return has the empty object \<open>{}\<close> as its summary
  (\<open>None\<close>) and no properties \<open>rules\<close> and \<open>standardsApplied\<close>.
\<close>

record result =
  ok :: bool
  errors :: "violation list"
  summary :: "summary option"
  rules :: "ruleTable option"
  standardsApplied :: "standards option"

text \<open>Division and comparison of numbers, with the results of a division by zero.\<close>

definition js_div :: "real \<Rightarrow> real \<Rightarrow> jsnum" where
  "js_div a b =
     (if b \<noteq> 0 then Fin (a / b) else if 0 < a then PosInf else if a < 0 then NegInf else NaN)"

fun js_lt :: "jsnum \<Rightarrow> real \<Rightarrow> bool" where
  "js_lt (Fin a) b = (a < b)"
| "js_lt NegInf b = True"
| "js_lt PosInf b = False"
| "js_lt NaN b = False"

text \<open>The derived quantities, each named after the local variable that holds it.\<close>

definition sidewalkTotalM :: "geometry \<Rightarrow> real" where
  "sidewalkTotalM g = sidewalkLeftM g + sidewalkRightM g"

definition cycleWidthPerSide :: "ruleTable \<Rightarrow> geometry \<Rightarrow> real" where
  "cycleWidthPerSide RULES g =
     (if cycleNeeded g then
        (if cycleType g = ''schutzstreifen'' then get RULES cycle_schutz_min_m
         else if cycleType g = ''radfahrstreifen'' then get RULES cycle_radfahr_min_m
         else get RULES cycle_baulich_min_m)
      else 0)"

definition cycleSidesCount :: "geometry \<Rightarrow> real" where
  "cycleSidesCount g =
     (if cycleNeeded g then (if cycleSides g = ''beidseitig'' then 2 else 1) else 0)"

definition cycleTotalM :: "ruleTable \<Rightarrow> geometry \<Rightarrow> real" where
  "cycleTotalM RULES g = cycleWidthPerSide RULES g * cycleSidesCount g"

definition parkingM :: "ruleTable \<Rightarrow> geometry \<Rightarrow> real" where
  "parkingM RULES g =
     (if parkingNeeded g then
        (if parkingType g = ''parallel'' then get RULES parking_parallel_min_m
         else if parkingType g = ''schraeg'' then get RULES parking_schraeg_min_m
         else if parkingType g = ''quer'' then get RULES parking_quer_min_m
         else 0)
      else 0)"

definition lanesMin :: "ruleTable \<Rightarrow> geometry \<Rightarrow> real" where
  "lanesMin RULES g = lanesCount g * get RULES lane_min_m"

definition requiredMin :: "ruleTable \<Rightarrow> geometry \<Rightarrow> real" where
  "requiredMin RULES g =
     sidewalkTotalM g + cycleTotalM RULES g + parkingM RULES g + lanesMin RULES g"

definition widthForLanes :: "ruleTable \<Rightarrow> geometry \<Rightarrow> real" where
  "widthForLanes RULES g =
     totalWidthM g - (sidewalkTotalM g + cycleTotalM RULES g + parkingM RULES g)"

definition approxLaneWidth :: "ruleTable \<Rightarrow> geometry \<Rightarrow> jsnum" where
  "approxLaneWidth RULES g = js_div (widthForLanes RULES g) (lanesCount g)"

text \<open>The messages. \<open>sz\<close>, \<open>ue\<close> and \<open>oe\<close> are the UTF-8 bytes of three German letters.\<close>

definition sz :: string where "sz = [CHR 0xC3, CHR 0x9F]"
definition ue :: string where "ue = [CHR 0xC3, CHR 0xBC]"
definition oe :: string where "oe = [CHR 0xC3, CHR 0xB6]"

definition msg_total_missing :: "piece list" where
  "msg_total_missing =
     [Text (''Bitte geben Sie die Gesamtbreite des Stra'' @ sz @ ''enraums an.'')]"

definition msg_lanes_missing :: "piece list" where
  "msg_lanes_missing = [Text ''Bitte geben Sie die Anzahl der Fahrstreifen an.'']"

definition msg_left_missing :: "piece list" where
  "msg_left_missing = [Text ''Bitte geben Sie die Breite des linken Gehwegs an.'']"

definition msg_right_missing :: "piece list" where
  "msg_right_missing = [Text ''Bitte geben Sie die Breite des rechten Gehwegs an.'']"

definition msg_left_narrow :: "real \<Rightarrow> real \<Rightarrow> piece list" where
  "msg_left_narrow w m =
     [Text ''Linker Gehweg ist mit '', Num w,
      Text '' m schmaler als die Mindestbreite von '', Num m, Text '' m.'']"

definition msg_right_narrow :: "real \<Rightarrow> real \<Rightarrow> piece list" where
  "msg_right_narrow w m =
     [Text ''Rechter Gehweg ist mit '', Num w,
      Text '' m schmaler als die Mindestbreite von '', Num m, Text '' m.'']"

definition msg_required :: "real \<Rightarrow> real \<Rightarrow> piece list" where
  "msg_required r t =
     [Text (''Die gew'' @ ue @ ''nschte Aufteilung ben'' @ oe @ ''tigt mindestens ''),
      Fixed (Fin r),
      Text ('' m, verf'' @ ue @ ''gbar sind aber nur ''), Fixed (Fin t), Text '' m.'']"

definition msg_lane_narrow :: "jsnum \<Rightarrow> real \<Rightarrow> piece list" where
  "msg_lane_narrow a m =
     [Text ''Die voraussichtliche Fahrstreifenbreite liegt mit ca. '', Fixed a,
      Text '' m unter der Mindestbreite von '', Num m, Text '' m.'']"

definition msg_bus :: "real \<Rightarrow> piece list" where
  "msg_bus m =
     [Text (''F'' @ ue @ ''r Busverkehr wird in der Regel eine Fahrstreifenbreite von mindestens ''),
      Num m, Text '' m empfohlen.'']"

text \<open>
  The mandatory-field checks (lines 126 to 137): \<open>!x\<close> holds of a finite number exactly
  when it is zero.
\<close>

definition mandatoryChecks :: "geometry \<Rightarrow> violation list" where
  "mandatoryChecks g =
     (let errors = [];
          errors = (if totalWidthM g = 0
                    then addError errors ''gesamtbreite'' msg_total_missing else errors);
          errors = (if lanesCount g = 0
                    then addError errors ''fahrstreifen'' msg_lanes_missing else errors);
          errors = (if sidewalkLeftM g = 0
                    then addError errors ''gehwegLinks'' msg_left_missing else errors);
          errors = (if sidewalkRightM g = 0
                    then addError errors ''gehwegRechts'' msg_right_missing else errors)
      in errors)"

text \<open>The width checks (lines 145 to 229), which add to the list they are given.\<close>

definition widthChecks :: "ruleTable \<Rightarrow> geometry \<Rightarrow> violation list \<Rightarrow> violation list" where
  "widthChecks RULES g errors0 =
     (let errors = errors0;
          errors = (if sidewalkLeftM g < get RULES sidewalk_min_m
                    then addError errors ''gehwegLinks''
                           (msg_left_narrow (sidewalkLeftM g) (get RULES sidewalk_min_m))
                    else errors);
          errors = (if sidewalkRightM g < get RULES sidewalk_min_m
                    then addError errors ''gehwegRechts''
                           (msg_right_narrow (sidewalkRightM g) (get RULES sidewalk_min_m))
                    else errors);
          errors = (if requiredMin RULES g > totalWidthM g
                    then addError errors ''gesamtbreite''
                           (msg_required (requiredMin RULES g) (totalWidthM g))
                    else errors);
          errors = (if js_lt (approxLaneWidth RULES g) (get RULES lane_min_m)
                    then addError errors ''fahrstreifen''
                           (msg_lane_narrow (approxLaneWidth RULES g) (get RULES lane_min_m))
                    else errors);
          errors = (if busTraffic g \<and> js_lt (approxLaneWidth RULES g) (get RULES lane_regular_m)
                    then addError errors ''fahrstreifen'' (msg_bus (get RULES lane_regular_m))
                    else errors)
      in errors)"

text \<open>
  \<open>validateDesignWithStandards\<close> from the mandatory-field checks on, as a function of the
  constants the form mapping has bound.
\<close>

definition validate :: "geometry \<Rightarrow> standards \<Rightarrow> result" where
  "validate g standards =
     (let RULES = buildRules standards;
          errors = mandatoryChecks g
      in if 0 < length errors
         then \<lparr>ok = False, errors = errors, summary = None, rules = None,
               standardsApplied = None\<rparr>
         else
           (let errors = widthChecks RULES g errors
            in \<lparr>ok = (length errors = 0),
                errors = errors,
                summary = Some
                  \<lparr>sum_sidewalkLeftM = sidewalkLeftM g,
                   sum_sidewalkRightM = sidewalkRightM g,
                   sum_cycleNeeded = cycleNeeded g,
                   sum_cycleType = cycleType g,
                   sum_cycleSides = cycleSides g,
                   sum_cycleTotalM = cycleTotalM RULES g,
                   sum_parkingNeeded = parkingNeeded g,
                   sum_parkingType = parkingType g,
                   sum_parkingM = parkingM RULES g,
                   sum_lanesCount = lanesCount g,
                   sum_approxLaneWidth = approxLaneWidth RULES g,
                   sum_requiredMin = requiredMin RULES g,
                   sum_totalWidthM = totalWidthM g\<rparr>,
                rules = Some RULES,
                standardsApplied = Some standards\<rparr>))"

definition validateDesignWithStandards ::
  "(string \<Rightarrow> jsnum) \<Rightarrow> data \<Rightarrow> standards \<Rightarrow> error + result" where
  "validateDesignWithStandards S d standards =
     (case formMapping S d of Inl e \<Rightarrow> Inl e | Inr g \<Rightarrow> Inr (validate g standards))"

subsection \<open>Predicates and examples used in the statements\<close>



text \<open>
  No standard selected, and the geometry of the first example of the specification:
  10 m in total, sidewalks of 2 m, two lanes, no cycle facility, no parking, no bus.
\<close>

definition no_standards :: standards where
  "no_standards = \<lparr>applyRast = False, applyEra = False, applyEfa = False, applyStvo = False\<rparr>"

definition example_geometry :: geometry where
  "example_geometry =
     \<lparr>totalWidthM = 10, sidewalkLeftM = 2, sidewalkRightM = 2, lanesCount = 2,
      busTraffic = False, cycleNeeded = False, cycleType = [], cycleSides = [],
      parkingNeeded = False, parkingType = []\<rparr>"

text \<open>The same geometry as a request body, with numbers as JSON numbers.\<close>

definition example_data :: data where
  "example_data =
     \<lparr>gesamtbreite = JNum 10, gehwegLinks = JNum 2, gehwegRechts = JNum 2,
      fahrstreifen = JNum 2, busverkehr = JUndefined, radverkehrGewuenscht = JUndefined,
      radverkehrArt = JUndefined, radverkehrFuehrung = JUndefined,
      parkstaendeGewuenscht = JUndefined, parkart = JUndefined\<rparr>"

section \<open>Properties of the rule merger\<close>

lemmas catalog_defs = BASE_RULES_def RAST_RULES_def ERA_RULES_def EFA_RULES_def STVO_RULES_def

lemmas addr_defs =
  BASE_RULES_a_def RAST_RULES_a_def ERA_RULES_a_def EFA_RULES_a_def STVO_RULES_a_def

text \<open>The keys that \<open>buildRules\<close> reads from the catalog are there.\<close>

lemma catalog_reads:
  "lane_min_m \<in> dom BASE_RULES" "lane_regular_m \<in> dom BASE_RULES"
  "lane_min_m \<in> dom STVO_RULES" "lane_regular_m \<in> dom STVO_RULES"
  "cycle_schutz_min_m \<in> dom ERA_RULES" "cycle_radfahr_min_m \<in> dom ERA_RULES"
  "cycle_baulich_min_m \<in> dom ERA_RULES"
  by (simp_all add: catalog_defs)

text \<open>The effective table, key by key.\<close>

lemma buildRules_closed:
  "buildRules st =
     [sidewalk_min_m \<mapsto> (if applyRast st \<or> applyEfa st then 1.8 else 1.5),
      sidewalk_target_m \<mapsto> (if applyEfa st then 2.5 else 1.8),
      lane_min_m \<mapsto> 2.75, lane_regular_m \<mapsto> 3.25, cycle_min_m \<mapsto> 1.5,
      parking_parallel_min_m \<mapsto> 2.0, parking_schraeg_min_m \<mapsto> 2.5,
      parking_quer_min_m \<mapsto> 5.0, cycle_schutz_min_m \<mapsto> 1.5,
      cycle_radfahr_min_m \<mapsto> 1.85, cycle_baulich_min_m \<mapsto> 2.0]"
proof (rule ext)
  fix k
  show "buildRules st k =
     [sidewalk_min_m \<mapsto> (if applyRast st \<or> applyEfa st then 1.8 else 1.5),
      sidewalk_target_m \<mapsto> (if applyEfa st then 2.5 else 1.8),
      lane_min_m \<mapsto> 2.75, lane_regular_m \<mapsto> 3.25, cycle_min_m \<mapsto> 1.5,
      parking_parallel_min_m \<mapsto> 2.0, parking_schraeg_min_m \<mapsto> 2.5,
      parking_quer_min_m \<mapsto> 5.0, cycle_schutz_min_m \<mapsto> 1.5,
      cycle_radfahr_min_m \<mapsto> 1.85, cycle_baulich_min_m \<mapsto> 2.0] k"
    by (cases k) (simp_all add: buildRules_def catalog_defs get_def Let_def)
qed

lemma buildRules_dom: "dom (buildRules st) = UNIV"
proof -
  have "k \<in> dom (buildRules st)" for k
    by (cases k) (simp_all add: buildRules_closed)
  then show ?thesis by blast
qed

lemma get_buildRules:
  "get (buildRules st) sidewalk_min_m = (if applyRast st \<or> applyEfa st then 1.8 else 1.5)"
  "get (buildRules st) lane_min_m = 2.75"
  "get (buildRules st) lane_regular_m = 3.25"
  "get (buildRules st) cycle_schutz_min_m = 1.5"
  "get (buildRules st) cycle_radfahr_min_m = 1.85"
  "get (buildRules st) cycle_baulich_min_m = 2.0"
  by (simp_all add: buildRules_closed get_def)

subsection \<open>The store model refines the function\<close>

lemma put_length: "length (put h a k v) = length h"
  by (simp add: put_def)

lemma put_nth:
  "put h a k v ! i = (if i = a \<and> a < length h then (h ! a)(k \<mapsto> v) else h ! i)"
  by (cases "a < length h") (simp_all add: put_def not_less list_update_beyond)

lemma spread_phase_sound:
  assumes "catalog_intact h" and "spread_phase st h = (a, h')"
  shows "length h \<le> a \<and> a < length h' \<and> (\<forall>i<length h. h' ! i = h ! i) \<and>
     h' ! a =
       (let rules = BASE_RULES;
            rules = (if applyRast st then rules ++ RAST_RULES else rules);
            rules = (if applyEfa st then rules ++ EFA_RULES else rules)
        in rules)"
  using assms
  unfolding catalog_intact_def spread_phase_def alloc_def addr_defs
  by (auto simp add: Let_def nth_append split: if_splits)

lemma assign_phase_length: "length (assign_phase st a h) = length h"
  by (simp add: assign_phase_def Let_def put_length)

lemma assign_phase_other: "i \<noteq> a \<Longrightarrow> assign_phase st a h ! i = h ! i"
  by (simp add: assign_phase_def Let_def put_nth)

lemma assign_phase_same:
  assumes "a < length h" "a \<noteq> STVO_RULES_a" "a \<noteq> ERA_RULES_a"
    "h ! STVO_RULES_a = STVO_RULES" "h ! ERA_RULES_a = ERA_RULES"
  shows "assign_phase st a h ! a = assign_table st (h ! a)"
  using assms by (simp add: assign_phase_def assign_table_def Let_def put_nth put_length)

lemma buildRules_st_phases:
  "buildRules_st st h = (case spread_phase st h of (a, h') \<Rightarrow> (a, assign_phase st a h'))"
  by (simp add: buildRules_st_def spread_phase_def assign_phase_def Let_def split: prod.splits)

text \<open>
  On a store whose catalog objects are intact, a call returns a new address, leaves every
  object that existed before as it was, and the returned object is \<open>buildRules st\<close>.
\<close>

lemma buildRules_st_sound:
  assumes "catalog_intact h" and "buildRules_st st h = (a, h')"
  shows "length h \<le> a \<and> a < length h' \<and> h' ! a = buildRules st \<and>
         (\<forall>i<length h. h' ! i = h ! i)"
proof -
  obtain h1 where sp: "spread_phase st h = (a, h1)" and h': "h' = assign_phase st a h1"
    using assms(2) by (auto simp add: buildRules_st_phases split: prod.splits)
  note s = spread_phase_sound [OF assms(1) sp]
  have len: "5 \<le> length h"
    using assms(1) by (simp add: catalog_intact_def)
  have "h1 ! STVO_RULES_a = STVO_RULES" "h1 ! ERA_RULES_a = ERA_RULES"
    using s len assms(1) by (simp_all add: catalog_intact_def addr_defs)
  moreover have "a \<noteq> STVO_RULES_a" "a \<noteq> ERA_RULES_a"
    using s len by (simp_all add: addr_defs)
  ultimately have "h' ! a = assign_table st (h1 ! a)"
    using s by (simp add: h' assign_phase_same)
  also have "\<dots> = buildRules st"
    using s by (simp add: assign_table_def buildRules_def Let_def)
  finally have tab: "h' ! a = buildRules st" .
  have "h' ! i = h ! i" if "i < length h" for i
    using s that by (simp add: h' assign_phase_other)
  with s tab show ?thesis
    by (simp add: h' assign_phase_length)
qed

lemma buildRules_st_intact:
  assumes "catalog_intact h"
  shows "catalog_intact (snd (buildRules_st st h))"
proof -
  obtain a h' where r: "buildRules_st st h = (a, h')"
    by (cases "buildRules_st st h")
  note s = buildRules_st_sound [OF assms r]
  have keep: "h' ! i = h ! i" if "i < 5" for i
    using s assms that by (simp add: catalog_intact_def)
  have "5 \<le> length h'"
    using s assms by (simp add: catalog_intact_def)
  with assms have "catalog_intact h'"
    by (simp add: catalog_intact_def addr_defs keep)
  then show ?thesis
    by (simp add: r)
qed

lemma buildRules_st_table:
  assumes "catalog_intact h"
  shows "table_of (buildRules_st st h) = buildRules st"
proof -
  obtain a h' where r: "buildRules_st st h = (a, h')"
    by (cases "buildRules_st st h")
  from buildRules_st_sound [OF assms r] show ?thesis
    by (simp add: table_of_def r)
qed

lemma module_store_intact: "catalog_intact module_store"
  by (simp add: catalog_intact_def module_store_def addr_defs)

text \<open>
  C3. Selecting the StVO standard never decreases \<open>lane_min_m\<close> or \<open>lane_regular_m\<close>:
  for every selection, the table built with the StVO flag set has both values at least as
  large as the baseline table has them, and at least as large as the table built from the
  same selection with the flag cleared.
\<close>

theorem stvo_never_decreases_lane_widths:
  "get BASE_RULES lane_min_m \<le> get (buildRules (st\<lparr>applyStvo := True\<rparr>)) lane_min_m \<and>
   get BASE_RULES lane_regular_m \<le> get (buildRules (st\<lparr>applyStvo := True\<rparr>)) lane_regular_m \<and>
   get (buildRules (st\<lparr>applyStvo := False\<rparr>)) lane_min_m
     \<le> get (buildRules (st\<lparr>applyStvo := True\<rparr>)) lane_min_m \<and>
   get (buildRules (st\<lparr>applyStvo := False\<rparr>)) lane_regular_m
     \<le> get (buildRules (st\<lparr>applyStvo := True\<rparr>)) lane_regular_m"
  by (simp add: buildRules_def catalog_defs get_def Let_def)

text \<open>
  C4. The rule merger is a deterministic function of the selection alone. On the object
  store: whatever the store is, as long as the catalog objects hold their declared values,
  a call returns the same table, namely \<open>buildRules st\<close>; and the call leaves the catalog
  objects intact, so the same holds for every later call.
\<close>

theorem buildRules_deterministic:
  assumes "catalog_intact h" and "catalog_intact h'"
  shows "table_of (buildRules_st st h) = table_of (buildRules_st st h') \<and>
         table_of (buildRules_st st h) = buildRules st \<and>
         catalog_intact (snd (buildRules_st st h))"
  using assms by (simp add: buildRules_st_table buildRules_st_intact)

text \<open>
  Witness: the store of the freshly loaded module, and two calls in a row with every
  standard selected.
\<close>

theorem buildRules_deterministic_witness:
  "catalog_intact module_store \<and>
   catalog_intact
     (snd (buildRules_st \<lparr>applyRast = True, applyEra = True, applyEfa = True, applyStvo = True\<rparr>
             module_store)) \<and>
   table_of (buildRules_st \<lparr>applyRast = True, applyEra = True, applyEfa = True, applyStvo = True\<rparr>
              module_store) =
   table_of (buildRules_st \<lparr>applyRast = True, applyEra = True, applyEfa = True, applyStvo = True\<rparr>
              (snd (buildRules_st
                      \<lparr>applyRast = True, applyEra = True, applyEfa = True, applyStvo = True\<rparr>
                      module_store)))"
proof -
  let ?st = "\<lparr>applyRast = True, applyEra = True, applyEfa = True, applyStvo = True\<rparr>"
  have a: "catalog_intact module_store"
    by (simp add: catalog_intact_def module_store_def addr_defs)
  from buildRules_deterministic [OF a a, of ?st]
  have b: "catalog_intact (snd (buildRules_st ?st module_store))"
    by simp
  from buildRules_deterministic [OF a b, of ?st] a b show ?thesis
    by simp
qed

text \<open>
  C5. Every key of the baseline table is a key of the effective table, for every
  selection, and the three cycle keys are keys of the effective table whether or not the
  ERA standard is selected.
\<close>

theorem buildRules_keeps_keys:
  "dom BASE_RULES \<subseteq> dom (buildRules st) \<and>
   cycle_schutz_min_m \<in> dom (buildRules st) \<and>
   cycle_radfahr_min_m \<in> dom (buildRules st) \<and>
   cycle_baulich_min_m \<in> dom (buildRules st)"
  by (simp add: buildRules_dom)

text \<open>
  C9. The StVO and the ERA flag never change the effective table: the table of a
  selection is the table of the same selection with both flags cleared.
\<close>

theorem stvo_era_flags_no_effect:
  "buildRules st = buildRules (st\<lparr>applyStvo := False, applyEra := False\<rparr>)"
  by (simp add: buildRules_closed)

section \<open>Properties of the validator\<close>


subsection \<open>The form mapping\<close>

lemma validateDesignWithStandards_Inr:
  "formMapping S d = Inr g \<Longrightarrow> validateDesignWithStandards S d st = Inr (validate g st)"
  by (simp add: validateDesignWithStandards_def)

lemma toBool_examples:
  "toBool (JStr '' Ja '')" "toBool (JStr ''ON'')" "toBool (JBool True)"
  "\<not> toBool (JStr ''nein'')" "\<not> toBool (JNum 1)" "\<not> toBool JUndefined"
  by code_simp+

lemma formMapping_example: "formMapping S example_data = Inr example_geometry"
  by (simp add: formMapping_def example_data_def example_geometry_def toNumber_def)

lemma formMapping_throws:
  "validateDesignWithStandards S (example_data\<lparr>radverkehrArt := JNum 5\<rparr>) st = Inl TypeError"
  by (simp add: validateDesignWithStandards_def formMapping_def example_data_def)

subsection \<open>The two lists of checks\<close>

lemma mandatoryChecks_eq:
  "mandatoryChecks g =
     (if totalWidthM g = 0
      then [\<lparr>field = ''gesamtbreite'', message = msg_total_missing\<rparr>] else []) @
     (if lanesCount g = 0
      then [\<lparr>field = ''fahrstreifen'', message = msg_lanes_missing\<rparr>] else []) @
     (if sidewalkLeftM g = 0
      then [\<lparr>field = ''gehwegLinks'', message = msg_left_missing\<rparr>] else []) @
     (if sidewalkRightM g = 0
      then [\<lparr>field = ''gehwegRechts'', message = msg_right_missing\<rparr>] else [])"
  by (simp add: mandatoryChecks_def addError_def Let_def)

lemma mandatoryChecks_Nil:
  "mandatoryChecks g = [] \<longleftrightarrow>
     totalWidthM g \<noteq> 0 \<and> lanesCount g \<noteq> 0 \<and> sidewalkLeftM g \<noteq> 0 \<and> sidewalkRightM g \<noteq> 0"
  by (simp add: mandatoryChecks_eq)

lemma widthChecks_eq:
  "widthChecks RULES g [] =
     (if sidewalkLeftM g < get RULES sidewalk_min_m
      then [\<lparr>field = ''gehwegLinks'',
             message = msg_left_narrow (sidewalkLeftM g) (get RULES sidewalk_min_m)\<rparr>]
      else []) @
     (if sidewalkRightM g < get RULES sidewalk_min_m
      then [\<lparr>field = ''gehwegRechts'',
             message = msg_right_narrow (sidewalkRightM g) (get RULES sidewalk_min_m)\<rparr>]
      else []) @
     (if requiredMin RULES g > totalWidthM g
      then [\<lparr>field = ''gesamtbreite'',
             message = msg_required (requiredMin RULES g) (totalWidthM g)\<rparr>]
      else []) @
     (if js_lt (approxLaneWidth RULES g) (get RULES lane_min_m)
      then [\<lparr>field = ''fahrstreifen'',
             message = msg_lane_narrow (approxLaneWidth RULES g) (get RULES lane_min_m)\<rparr>]
      else []) @
     (if busTraffic g \<and> js_lt (approxLaneWidth RULES g) (get RULES lane_regular_m)
      then [\<lparr>field = ''fahrstreifen'', message = msg_bus (get RULES lane_regular_m)\<rparr>]
      else [])"
  by (simp add: widthChecks_def addError_def Let_def)

lemma validate_missing:
  assumes "mandatoryChecks g \<noteq> []"
  shows "validate g st =
     \<lparr>ok = False, errors = mandatoryChecks g, summary = None, rules = None,
      standardsApplied = None\<rparr>"
  using assms by (simp add: validate_def Let_def)

lemma validate_complete:
  assumes "mandatoryChecks g = []"
  shows "errors (validate g st) = widthChecks (buildRules st) g []"
    and "ok (validate g st) = (widthChecks (buildRules st) g [] = [])"
    and "summary (validate g st) \<noteq> None"
    and "map_option sum_cycleTotalM (summary (validate g st)) =
           Some (cycleTotalM (buildRules st) g)"
    and "map_option sum_approxLaneWidth (summary (validate g st)) =
           Some (approxLaneWidth (buildRules st) g)"
  using assms by (simp_all add: validate_def Let_def)




subsection \<open>Mandatory fields\<close>

text \<open>
  C1, as the specification states it, fails: the mandatory-field check also covers the
  two sidewalk widths. With total width 0 and left sidewalk 0 the violations are the one
  for the total width and one for the left sidewalk, which is neither of the two that the
  claim allows.
\<close>

theorem missing_fields_counterexample:
  "totalWidthM (example_geometry\<lparr>totalWidthM := 0, sidewalkLeftM := 0\<rparr>) = 0 \<and>
   lanesCount (example_geometry\<lparr>totalWidthM := 0, sidewalkLeftM := 0\<rparr>) = 2 \<and>
   errors (validate (example_geometry\<lparr>totalWidthM := 0, sidewalkLeftM := 0\<rparr>) no_standards) =
     [\<lparr>field = ''gesamtbreite'', message = msg_total_missing\<rparr>,
      \<lparr>field = ''gehwegLinks'', message = msg_left_missing\<rparr>] \<and>
   errors (validate (example_geometry\<lparr>totalWidthM := 0, sidewalkLeftM := 0\<rparr>) no_standards) \<noteq>
     [\<lparr>field = ''gesamtbreite'', message = msg_total_missing\<rparr>]"
  by (simp add: validate_def mandatoryChecks_eq example_geometry_def Let_def)

text \<open>
  C1, amended. For every geometry whose total width is zero or whose lane count is zero,
  the result has \<open>ok = false\<close>, the empty summary, and as its violations exactly the
  applicable missing-field violations among total width, lane count, left sidewalk and
  right sidewalk, in this order; no width check has added a violation.
\<close>

theorem missing_fields_short_circuit:
  assumes "totalWidthM g = 0 \<or> lanesCount g = 0"
  shows "validate g st =
     \<lparr>ok = False,
      errors =
        (if totalWidthM g = 0
         then [\<lparr>field = ''gesamtbreite'', message = msg_total_missing\<rparr>] else []) @
        (if lanesCount g = 0
         then [\<lparr>field = ''fahrstreifen'', message = msg_lanes_missing\<rparr>] else []) @
        (if sidewalkLeftM g = 0
         then [\<lparr>field = ''gehwegLinks'', message = msg_left_missing\<rparr>] else []) @
        (if sidewalkRightM g = 0
         then [\<lparr>field = ''gehwegRechts'', message = msg_right_missing\<rparr>] else []),
      summary = None, rules = None, standardsApplied = None\<rparr>"
proof -
  from assms have "mandatoryChecks g \<noteq> []"
    by (auto simp add: mandatoryChecks_Nil)
  then show ?thesis
    by (simp add: validate_missing mandatoryChecks_eq)
qed

theorem missing_fields_short_circuit_witness:
  "validate (example_geometry\<lparr>lanesCount := 0, sidewalkRightM := 0\<rparr>) no_standards =
     \<lparr>ok = False,
      errors = [\<lparr>field = ''fahrstreifen'', message = msg_lanes_missing\<rparr>,
                \<lparr>field = ''gehwegRechts'', message = msg_right_missing\<rparr>],
      summary = None, rules = None, standardsApplied = None\<rparr>"
  using missing_fields_short_circuit
          [of "example_geometry\<lparr>lanesCount := 0, sidewalkRightM := 0\<rparr>" no_standards]
  by (simp add: example_geometry_def)

subsection \<open>Acceptance\<close>




subsection \<open>Cycle facility\<close>

text \<open>
  C6. For every geometry that passes the mandatory-field check, the cycle total of the
  summary is: if the cycle facility is requested, the per-side width (the entry
  \<open>cycle_radfahr_min_m\<close> for the type "radfahrstreifen", \<open>cycle_schutz_min_m\<close> for
  "schutzstreifen", \<open>cycle_baulich_min_m\<close> for every other type) times 2 if the sides are
  "beidseitig" and times 1 otherwise; and 0 if it is not requested.
\<close>

theorem cycle_total_width:
  assumes "totalWidthM g \<noteq> 0" "lanesCount g \<noteq> 0" "sidewalkLeftM g \<noteq> 0" "sidewalkRightM g \<noteq> 0"
  shows "map_option sum_cycleTotalM (summary (validate g st)) =
     Some (if cycleNeeded g then
             (if cycleType g = ''radfahrstreifen'' then get (buildRules st) cycle_radfahr_min_m
              else if cycleType g = ''schutzstreifen'' then get (buildRules st) cycle_schutz_min_m
              else get (buildRules st) cycle_baulich_min_m)
             * (if cycleSides g = ''beidseitig'' then 2 else 1)
           else 0)"
proof -
  have m: "mandatoryChecks g = []"
    using assms by (simp add: mandatoryChecks_Nil)
  show ?thesis
    by (simp add: validate_complete(4) [OF m] cycleTotalM_def cycleWidthPerSide_def
          cycleSidesCount_def)
qed

text \<open>Witness: a cycle lane on both sides, 2 times 1.85 m.\<close>

theorem cycle_total_width_witness:
  "map_option sum_cycleTotalM
     (summary (validate
        (example_geometry\<lparr>totalWidthM := 20, cycleNeeded := True,
           cycleType := ''radfahrstreifen'', cycleSides := ''beidseitig''\<rparr>) no_standards))
   = Some 3.7"
  using cycle_total_width
          [of "example_geometry\<lparr>totalWidthM := 20, cycleNeeded := True,
                 cycleType := ''radfahrstreifen'', cycleSides := ''beidseitig''\<rparr>" no_standards]
  by (simp add: example_geometry_def get_buildRules)

subsection \<open>Sidewalks\<close>

text \<open>
  C7. For every geometry that passes the mandatory-field check, the violations tagged
  with a sidewalk's field are: the one sidewalk violation of that side if the side's width
  is strictly less than \<open>sidewalk_min_m\<close>, and none otherwise. So a width equal to the
  minimum produces no sidewalk violation.
\<close>

theorem sidewalk_violation_iff_below_min:
  assumes "totalWidthM g \<noteq> 0" "lanesCount g \<noteq> 0" "sidewalkLeftM g \<noteq> 0" "sidewalkRightM g \<noteq> 0"
  shows "filter (\<lambda>e. field e = ''gehwegLinks'') (errors (validate g st)) =
           (if sidewalkLeftM g < get (buildRules st) sidewalk_min_m
            then [\<lparr>field = ''gehwegLinks'',
                   message = msg_left_narrow (sidewalkLeftM g)
                               (get (buildRules st) sidewalk_min_m)\<rparr>]
            else []) \<and>
         filter (\<lambda>e. field e = ''gehwegRechts'') (errors (validate g st)) =
           (if sidewalkRightM g < get (buildRules st) sidewalk_min_m
            then [\<lparr>field = ''gehwegRechts'',
                   message = msg_right_narrow (sidewalkRightM g)
                               (get (buildRules st) sidewalk_min_m)\<rparr>]
            else [])"
proof -
  have m: "mandatoryChecks g = []"
    using assms by (simp add: mandatoryChecks_Nil)
  show ?thesis
    by (simp add: validate_complete(1) [OF m] widthChecks_eq)
qed

text \<open>Witness: the left sidewalk exactly at the minimum of 1.5 m, the right one below it.\<close>

theorem sidewalk_violation_iff_below_min_witness:
  "sidewalkLeftM (example_geometry\<lparr>sidewalkLeftM := 1.5, sidewalkRightM := 1.25\<rparr>)
     = get (buildRules no_standards) sidewalk_min_m \<and>
   filter (\<lambda>e. field e = ''gehwegLinks'')
     (errors (validate (example_geometry\<lparr>sidewalkLeftM := 1.5, sidewalkRightM := 1.25\<rparr>)
                no_standards)) = [] \<and>
   filter (\<lambda>e. field e = ''gehwegRechts'')
     (errors (validate (example_geometry\<lparr>sidewalkLeftM := 1.5, sidewalkRightM := 1.25\<rparr>)
                no_standards)) =
     [\<lparr>field = ''gehwegRechts'', message = msg_right_narrow 1.25 1.5\<rparr>]"
  using sidewalk_violation_iff_below_min
          [of "example_geometry\<lparr>sidewalkLeftM := 1.5, sidewalkRightM := 1.25\<rparr>" no_standards]
  by (simp add: example_geometry_def get_buildRules no_standards_def)

subsection \<open>The division by the lane count\<close>



subsection \<open>Numbers in the messages\<close>












end
